theory Spec2Isabelle
  imports Complex_Main
begin

section \<open>JavaScript values used by the blog pages\<close>

text \<open>
  The pages are TypeScript modules. A field declared \<^verbatim>\<open>string | null\<close> or
  \<^verbatim>\<open>uid?: string\<close> holds a string, \<^verbatim>\<open>null\<close> or \<^verbatim>\<open>undefined\<close> at run time; the three
  cases are kept apart because template literals print them differently and \<^verbatim>\<open>!==\<close>
  tells them apart. Strings are byte lists here; splitting at the space character is the
  same on the UTF-8 bytes as on the UTF-16 units of the source.
\<close>

datatype js_string = Undefined | Null | String string

text \<open>Truthiness of such a value: only a non-empty string is truthy.\<close>

fun truthy :: "js_string \<Rightarrow> bool" where
  "truthy Undefined = False"
| "truthy Null = False"
| "truthy (String s) = (s \<noteq> [])"

text \<open>What \<^verbatim>\<open>`${v}`\<close> prints.\<close>

fun template :: "js_string \<Rightarrow> string" where
  "template Undefined = ''undefined''"
| "template Null = ''null''"
| "template (String s) = s"

text \<open>
  A number as the pages use it: \<^verbatim>\<open>NaN\<close> (from \<^verbatim>\<open>undefined / 200\<close>) or an integer. The
  only arithmetic is \<^verbatim>\<open>Math.ceil(n / 200)\<close> on an array length \<open>n\<close>, which is exact in
  double precision for every array length.
\<close>

datatype js_number = NaN | Num int

fun truthy_number :: "js_number \<Rightarrow> bool" where
  "truthy_number NaN = False"
| "truthy_number (Num n) = (n \<noteq> 0)"

datatype error = TypeError | RangeError | FetchError | NotFoundError

text \<open>
  The two date patterns the pages pass to date-fns: \<^verbatim>\<open>'dd MMM yyyy'\<close> for the publication
  date and \<^verbatim>\<open>"'* editado em 'dd MMM yyyy', as' HH:mm"\<close> (with a grave accent on the
  \<^verbatim>\<open>a\<close> of \<^verbatim>\<open>as\<close>) for the edit marker. In the definitions below the parameter \<open>format\<close>
  stands for \<^verbatim>\<open>format(new Date(v), pattern, { locale: ptBR })\<close>, which throws a
  \<^verbatim>\<open>RangeError\<close> when \<^verbatim>\<open>new Date(v)\<close> is not a valid date.
\<close>

datatype date_pattern = Published | Edited

text \<open>
  \<^verbatim>\<open>s.split(sep)\<close> for a one-character separator: the string is cut at every occurrence
  of the separator and every piece is kept, the empty ones too. \<open>split_where\<close> cuts at
  every character satisfying a predicate; \<open>w\<close> is the piece being read.
\<close>

fun split_where :: "(char \<Rightarrow> bool) \<Rightarrow> string \<Rightarrow> string \<Rightarrow> string list" where
  "split_where P w [] = [w]"
| "split_where P w (c # cs) =
     (if P c then w # split_where P [] cs else split_where P (w @ [c]) cs)"

definition js_split :: "char \<Rightarrow> string \<Rightarrow> string list" where
  "js_split sep s = split_where (\<lambda>c. c = sep) [] s"

text \<open>A number in a template literal: its decimal digits.\<close>

fun show_nat :: "nat \<Rightarrow> string" where
  "show_nat n =
     (if n < 10 then [char_of (48 + n)]
      else show_nat (n div 10) @ [char_of (48 + n mod 10)])"

definition show_int :: "int \<Rightarrow> string" where
  "show_int i = (if i < 0 then CHR ''-'' # show_nat (nat (- i)) else show_nat (nat i))"

fun show_number :: "js_number \<Rightarrow> string" where
  "show_number NaN = ''NaN''"
| "show_number (Num n) = show_int n"


section \<open>The post page: \<^verbatim>\<open>pages/post/[slug].tsx\<close>\<close>

subsection \<open>Data\<close>

record rich_text_block =
  "text" :: string

record content_block =
  heading :: string
  body :: "rich_text_block list"

record banner =
  url :: js_string

text \<open>
  The objects of the pages are structurally typed, so the records are layered: an object
  with a \<open>title\<close>; the \<open>data\<close> of a listed post (\<open>title\<close>, \<open>subtitle\<close>, \<open>author\<close>); the
  \<open>data\<close> of a full post, which adds \<open>banner\<close> and \<open>content\<close>. The post page reads
  \<^verbatim>\<open>post?.data?.content.reduce\<close> without a guard on \<open>content\<close>, so \<open>content\<close> may be
  missing (\<open>None\<close>) in the model.
\<close>

record titled =
  title :: string

record summary_data = titled +
  subtitle :: string
  author :: string

record post_data = summary_data +
  banner :: banner
  content :: "content_block list option"

text \<open>
  A post as the listing page declares it (\<open>uid\<close>, \<open>first_publication_date\<close>, \<open>data\<close>), as
  the post page declares it (with \<open>last_publication_date\<close>) and as the content API
  returns it (with its \<open>id\<close>, here \<open>doc_id\<close>). The post page guards \<open>data\<close> by optional
  chaining, so its posts have an optional \<open>data\<close>.
\<close>

record 'd post_summary =
  uid :: js_string
  first_publication_date :: js_string
  data :: 'd

record 'd dated_post = "'d post_summary" +
  last_publication_date :: js_string

type_synonym post = "post_data option dated_post"

record document = "post_data dated_post" +
  doc_id :: string

record page_link = titled +
  href :: string

record pagination =
  nextPage :: "page_link option"
  prevPage :: "page_link option"

record post_props =
  post :: "post option"
  preview :: bool
  pagination :: "pagination option"

text \<open>A page of query results with the link to the next page.\<close>

record 'p post_pagination =
  next_page :: js_string
  results :: "'p list"

subsection \<open>Word count and reading time\<close>

text \<open>
  The callback of \<^verbatim>\<open>content.reduce((total, content) => ..., [])\<close>. \<open>asText\<close> is
  \<^verbatim>\<open>RichText.asText\<close> of the prismic-dom package, taken as a parameter.
  \<^verbatim>\<open>
  if (content.heading) { total.push(...content.heading.split(' ')); }
  const wordsContent = RichText.asText(content.body).split(' ');
  total.push(...wordsContent);
  return total;
  \<close>
  The accumulator \<^verbatim>\<open>total\<close> is \<open>tot\<close> here. The earlier version of the page that the
  repository keeps has the same computation, with the test written \<^verbatim>\<open>!!content.heading\<close>.
\<close>

definition wordsContent :: "(rich_text_block list \<Rightarrow> string) \<Rightarrow> content_block \<Rightarrow> string list" where
  "wordsContent asText c = js_split CHR '' '' (asText (body c))"

definition pushWords :: "(rich_text_block list \<Rightarrow> string) \<Rightarrow> string list \<Rightarrow> content_block \<Rightarrow> string list" where
  "pushWords asText tot c =
     (let tot1 = (if heading c \<noteq> [] then tot @ js_split CHR '' '' (heading c) else tot)
      in tot1 @ wordsContent asText c)"

definition reduce_content :: "(rich_text_block list \<Rightarrow> string) \<Rightarrow> content_block list \<Rightarrow> string list" where
  "reduce_content asText blocks = foldl (pushWords asText) [] blocks"

text \<open>
  \<^verbatim>\<open>const totalWords = post?.data?.content.reduce(...)\<close>: \<^verbatim>\<open>undefined\<close> (\<open>Inr None\<close>) when
  the post or its \<open>data\<close> is missing; a \<^verbatim>\<open>TypeError\<close> when \<open>data\<close> is there and \<open>content\<close>
  is not, since \<^verbatim>\<open>.reduce\<close> is then read from \<^verbatim>\<open>undefined\<close>.
\<close>

definition totalWords :: "(rich_text_block list \<Rightarrow> string) \<Rightarrow> post option \<Rightarrow> error + string list option" where
  "totalWords asText p =
     (case p of
        None \<Rightarrow> Inr None
      | Some p' \<Rightarrow>
          (case data p' of
             None \<Rightarrow> Inr None
           | Some d \<Rightarrow>
               (case content d of
                  None \<Rightarrow> Inl TypeError
                | Some blocks \<Rightarrow> Inr (Some (reduce_content asText blocks)))))"

text \<open>\<^verbatim>\<open>Math.ceil(n / 200)\<close> on an array length.\<close>

definition ceil_200 :: "nat \<Rightarrow> int" where
  "ceil_200 n = \<lceil>real n / 200\<rceil>"

text \<open>\<^verbatim>\<open>const readTime = Math.ceil(totalWords?.length / 200)\<close>.\<close>

definition readTime :: "(rich_text_block list \<Rightarrow> string) \<Rightarrow> post option \<Rightarrow> error + js_number" where
  "readTime asText p =
     (case totalWords asText p of
        Inl e \<Rightarrow> Inl e
      | Inr None \<Rightarrow> Inr NaN
      | Inr (Some ws) \<Rightarrow> Inr (Num (ceil_200 (length ws))))"

text \<open>
  The estimate for a sequence of content blocks: what \<open>readTime\<close> computes for a post
  whose \<open>content\<close> is that sequence.
\<close>

definition estimate :: "(rich_text_block list \<Rightarrow> string) \<Rightarrow> content_block list \<Rightarrow> int" where
  "estimate asText blocks = ceil_200 (length (reduce_content asText blocks))"

subsection \<open>The rendered slots\<close>

text \<open>\<^verbatim>\<open>{readTime ? `${readTime} min` : 'Tempo de leitura'}\<close>.\<close>

definition clock :: "js_number \<Rightarrow> string" where
  "clock r = (if truthy_number r then show_number r @ '' min'' else ''Tempo de leitura'')"

text \<open>
  The publication date of the header:
  \<^verbatim>\<open>{post?.first_publication_date ? format(new Date(post.first_publication_date), ...) : placeholder}\<close>.
  The placeholder is \<^verbatim>\<open>Data de publicacao\<close> with a cedilla and a tilde, written in its
  UTF-8 bytes.
\<close>

definition publication_placeholder :: string where
  "publication_placeholder = ''Data de publica'' @ [CHR 0xC3, CHR 0xA7, CHR 0xC3, CHR 0xA3] @ ''o''"

definition published :: "(date_pattern \<Rightarrow> js_string \<Rightarrow> error + string) \<Rightarrow> post option \<Rightarrow> error + string" where
  "published format p =
     (case p of
        None \<Rightarrow> Inr publication_placeholder
      | Some p' \<Rightarrow>
          (if truthy (first_publication_date p')
           then format Published (first_publication_date p')
           else Inr publication_placeholder))"

text \<open>
  \<^verbatim>\<open>{post?.last_publication_date && (<span>{format(new Date(...), ...)}</span>)}\<close>: the
  marker is rendered when the post is there and its \<open>last_publication_date\<close> is truthy
  (\<open>Some\<close>); rendering it formats the date, which can raise.
\<close>

definition lastEdit :: "(date_pattern \<Rightarrow> js_string \<Rightarrow> error + string) \<Rightarrow> post option \<Rightarrow> (error + string) option" where
  "lastEdit format p =
     (case p of
        None \<Rightarrow> None
      | Some p' \<Rightarrow>
          (if truthy (last_publication_date p')
           then Some (format Edited (last_publication_date p'))
           else None))"

text \<open>
  The slots of the rendered page that depend on a computation. The component body
  computes \<open>readTime\<close> before it returns the markup, and the markup evaluates the
  publication date before the edit marker; the first exception is the outcome of the
  whole render.
\<close>

record post_view =
  published_slot :: string
  clock_slot :: string
  lastEdit_slot :: "string option"

definition Post ::
  "(rich_text_block list \<Rightarrow> string) \<Rightarrow> (date_pattern \<Rightarrow> js_string \<Rightarrow> error + string)
     \<Rightarrow> post_props \<Rightarrow> error + post_view" where
  "Post asText format props' =
     (case readTime asText (post props') of
        Inl e \<Rightarrow> Inl e
      | Inr r \<Rightarrow>
     (case published format (post props') of
        Inl e \<Rightarrow> Inl e
      | Inr t \<Rightarrow>
     (case lastEdit format (post props') of
        None \<Rightarrow> Inr \<lparr>published_slot = t, clock_slot = clock r, lastEdit_slot = None\<rparr>
      | Some (Inl e) \<Rightarrow> Inl e
      | Some (Inr m) \<Rightarrow> Inr \<lparr>published_slot = t, clock_slot = clock r, lastEdit_slot = Some m\<rparr>)))"

subsection \<open>Static props of the post page\<close>

text \<open>
  The content API client: \<^verbatim>\<open>getByUID(type, uid, {ref})\<close> and
  \<^verbatim>\<open>query(predicates, {pageSize, after, orderings})\<close>; a rejected promise is an error.
\<close>

datatype predicate = At string string

record ref_options =
  ref :: js_string

record query_options =
  pageSize :: nat
  after :: string
  orderings :: string

record prismic_client =
  getByUID :: "string \<Rightarrow> string \<Rightarrow> ref_options \<Rightarrow> error + document"
  query :: "predicate list \<Rightarrow> query_options \<Rightarrow> error + document post_pagination"

record static_props =
  props :: post_props
  redirect :: nat

text \<open>\<^verbatim>\<open>const { results: [nextPage] } = ...\<close>: the first result, or \<^verbatim>\<open>undefined\<close>.\<close>

fun first_result :: "'a list \<Rightarrow> 'a option" where
  "first_result [] = None"
| "first_result (x # xs) = Some x"

text \<open>
  \<^verbatim>\<open>nextPage ? { title: nextPage?.data.title, href: `/post/${nextPage?.uid}` } : null\<close>
\<close>

definition page_link_of :: "document option \<Rightarrow> page_link option" where
  "page_link_of page =
     (case page of
        None \<Rightarrow> None
      | Some doc \<Rightarrow> Some \<lparr>title = title (data doc), href = ''/post/'' @ template (uid doc)\<rparr>)"

text \<open>\<^verbatim>\<open>previewData?.ref ?? null\<close>.\<close>

definition preview_ref :: "ref_options option \<Rightarrow> js_string" where
  "preview_ref previewData =
     (case previewData of
        None \<Rightarrow> Null
      | Some pd \<Rightarrow> (case ref pd of Undefined \<Rightarrow> Null | Null \<Rightarrow> Null | String r \<Rightarrow> String r))"

text \<open>
  \<open>getStaticProps\<close> of the post page. The parameter \<open>preview'\<close> is the context's
  \<^verbatim>\<open>preview\<close>, which defaults to \<^verbatim>\<open>false\<close> when it is not given. The locals
  \<^verbatim>\<open>nextPage\<close>, \<^verbatim>\<open>prevPage\<close>, \<^verbatim>\<open>post\<close> and \<^verbatim>\<open>pagination\<close> are \<open>next_doc\<close>, \<open>prev_doc\<close>, \<open>post'\<close>
  and \<open>pagination'\<close> here, the results of the two queries \<open>next_response\<close> and
  \<open>prev_response\<close>.
\<close>

definition getStaticProps ::
  "prismic_client \<Rightarrow> string \<Rightarrow> bool option \<Rightarrow> ref_options option \<Rightarrow> error + static_props" where
  "getStaticProps prismic slug preview' previewData =
     (case getByUID prismic ''posts'' slug \<lparr>ref = preview_ref previewData\<rparr> of
        Inl e \<Rightarrow> Inl e
      | Inr response \<Rightarrow>
     (case query prismic [At ''document.type'' ''posts'']
             \<lparr>pageSize = 1, after = doc_id response,
              orderings = ''[document.first_publication_date]''\<rparr> of
        Inl e \<Rightarrow> Inl e
      | Inr next_response \<Rightarrow>
     (case query prismic [At ''document.type'' ''posts'']
             \<lparr>pageSize = 1, after = doc_id response,
              orderings = ''[document.first_publication_date desc]''\<rparr> of
        Inl e \<Rightarrow> Inl e
      | Inr prev_response \<Rightarrow>
          (let next_doc = first_result (results next_response);
               prev_doc = first_result (results prev_response);
               post' = \<lparr>uid = uid response,
                        first_publication_date = first_publication_date response,
                        data = Some \<lparr>title = title (data response),
                                     subtitle = subtitle (data response),
                                     author = author (data response),
                                     banner = \<lparr>url = url (banner (data response))\<rparr>,
                                     content = content (data response)\<rparr>,
                        last_publication_date =
                          (if first_publication_date response \<noteq> last_publication_date response
                           then last_publication_date response else Null)\<rparr>;
               pagination' = \<lparr>nextPage = page_link_of next_doc, prevPage = page_link_of prev_doc\<rparr>
           in Inr \<lparr>props = \<lparr>post = Some post',
                              preview = (case preview' of None \<Rightarrow> False | Some b \<Rightarrow> b),
                              pagination = Some pagination'\<rparr>,
                    redirect = 60 * 30\<rparr>))))"


section \<open>The listing page: \<^verbatim>\<open>pages/index.tsx\<close>\<close>

text \<open>
  The component state: the two \<^verbatim>\<open>useState\<close> cells \<^verbatim>\<open>posts\<close> and \<^verbatim>\<open>nextPage\<close>, initialised
  from the page's props.
\<close>

type_synonym summary = "summary_data post_summary"

record home_state =
  posts_state :: "summary list"
  nextPage_state :: js_string


definition setPosts :: "summary list \<Rightarrow> home_state \<Rightarrow> home_state" where
  "setPosts v st = st\<lparr>posts_state := v\<rparr>"

definition setNextPage :: "js_string \<Rightarrow> home_state \<Rightarrow> home_state" where
  "setNextPage v st = st\<lparr>nextPage_state := v\<rparr>"

text \<open>
  The callback of \<^verbatim>\<open>postsResponse.results.map\<close>: a fetched post, whatever further
  fields it carries, is copied field by field into a summary.
\<close>

definition summary_of :: "('a summary_data_scheme, 'b) post_summary_scheme \<Rightarrow> summary" where
  "summary_of p =
     \<lparr>uid = uid p,
      first_publication_date = first_publication_date p,
      data = \<lparr>title = title (data p), subtitle = subtitle (data p), author = author (data p)\<rparr>\<rparr>"

text \<open>
  What the component renders from its state: the list, and the button
  \<^verbatim>\<open>{nextPage && (<button onClick={handleNextPosts}>...)}\<close>.
\<close>

record home_view =
  listed :: "summary list"
  loadMore_button :: bool

definition Home :: "home_state \<Rightarrow> home_view" where
  "Home st = \<lparr>listed = posts_state st, loadMore_button = truthy (nextPage_state st)\<rparr>"

text \<open>
  A callback mapped over an array, where the callback can throw: the first exception
  ends the map.
\<close>

fun map_throwing :: "('a \<Rightarrow> error + 'b) \<Rightarrow> 'a list \<Rightarrow> error + 'b list" where
  "map_throwing f [] = Inr []"
| "map_throwing f (x # xs) =
     (case f x of
        Inl e \<Rightarrow> Inl e
      | Inr y \<Rightarrow> (case map_throwing f xs of Inl e \<Rightarrow> Inl e | Inr ys \<Rightarrow> Inr (y # ys)))"

text \<open>
  Rendering the list formats the date of every listed post, without a guard:
  \<^verbatim>\<open>posts.map(post => ... format(new Date(post.first_publication_date), ...) ...)\<close>.
  A render is the dates shown with the list and the button, or the exception of the
  first date that does not format.
\<close>

definition time_slots :: "(date_pattern \<Rightarrow> js_string \<Rightarrow> error + string) \<Rightarrow> summary list \<Rightarrow> error + string list" where
  "time_slots format ps = map_throwing (\<lambda>p. format Published (first_publication_date p)) ps"

definition Home_render ::
  "(date_pattern \<Rightarrow> js_string \<Rightarrow> error + string) \<Rightarrow> home_state \<Rightarrow> error + string list \<times> home_view" where
  "Home_render format st =
     (case time_slots format (listed (Home st)) of
        Inl e \<Rightarrow> Inl e
      | Inr ts \<Rightarrow> Inr (ts, Home st))"

text \<open>
  \<open>handleNextPosts\<close>: \<open>fetch\<close> stands for \<^verbatim>\<open>fetch(url).then(response => response.json())\<close>,
  which either yields the parsed page or rejects. Both setters are called after the
  \<^verbatim>\<open>await\<close>, outside any batch of the React version the repository was written for, so
  each of them re-renders the component before it returns, and an exception of that
  render comes out of the setter and rejects the call at that point. The call returns
  its outcome and the state cells as it leaves them.
\<close>

definition handleNextPosts ::
  "(date_pattern \<Rightarrow> js_string \<Rightarrow> error + string)
     \<Rightarrow> (string \<Rightarrow> error + ('a summary_data_scheme, 'b) post_summary_scheme post_pagination)
     \<Rightarrow> home_state \<Rightarrow> (error + unit) \<times> home_state" where
  "handleNextPosts format fetch st =
     (case fetch (template (nextPage_state st)) of
        Inl e \<Rightarrow> (Inl e, st)
      | Inr postsResponse \<Rightarrow>
          (let addNewPosts = map summary_of (results postsResponse);
               st1 = setPosts (posts_state st @ addNewPosts) st
           in (case Home_render format st1 of
                 Inl e \<Rightarrow> (Inl e, st1)
               | Inr page1 \<Rightarrow>
                   (let st2 = setNextPage (next_page postsResponse) st1
                    in (case Home_render format st2 of
                          Inl e \<Rightarrow> (Inl e, st2)
                        | Inr page2 \<Rightarrow> (Inr (), st2))))))"

text \<open>
  One load-more action: the button is in the rendered page, it is clicked, and the call
  runs against whatever the network answers (\<open>fetch\<close>). \<open>handleNextPosts\<close> has no other
  caller.
\<close>

inductive load_more :: "home_state \<Rightarrow> home_state \<Rightarrow> bool" where
  click: "loadMore_button (Home st) \<Longrightarrow>
          handleNextPosts format (fetch :: string \<Rightarrow> error + document post_pagination) st = (outcome, st') \<Longrightarrow>
          load_more st st'"


section \<open>Definitions used to state the properties\<close>

text \<open>
  Modelled from the spec: \<^verbatim>\<open>RichText.asText\<close> belongs to the prismic-dom package, which is
  not part of this repository; section 4.2 of the specification describes it as the
  rich-text spans concatenated. It instantiates the renderer at concrete inputs, all
  with at most one span.
\<close>

definition concatText :: "rich_text_block list \<Rightarrow> string" where
  "concatText spans = concat (map text spans)"

text \<open>
  The tokenisation in the specification's words, for comparison with \<open>js_split\<close>: a
  string split at every whitespace character, empty tokens kept.
\<close>

definition is_whitespace :: "char \<Rightarrow> bool" where
  "is_whitespace c = (c \<in> set [CHR 0x09, CHR 0x0A, CHR 0x0B, CHR 0x0C, CHR 0x0D, CHR '' ''])"

definition whitespace_split :: "string \<Rightarrow> string list" where
  "whitespace_split s = split_where is_whitespace [] s"

definition whitespace_total :: "(rich_text_block list \<Rightarrow> string) \<Rightarrow> content_block list \<Rightarrow> nat" where
  "whitespace_total asText blocks =
     (\<Sum>c\<leftarrow>blocks. (if heading c \<noteq> [] then length (whitespace_split (heading c)) else 0)
                  + length (whitespace_split (asText (body c))))"

text \<open>The tokens one block adds, with the source's split at the space character.\<close>

definition block_words :: "(rich_text_block list \<Rightarrow> string) \<Rightarrow> content_block \<Rightarrow> string list" where
  "block_words asText c =
     (if heading c \<noteq> [] then js_split CHR '' '' (heading c) else [])
       @ js_split CHR '' '' (asText (body c))"

text \<open>A post with the given content blocks, every other field fixed.\<close>

definition post_with :: "content_block list option \<Rightarrow> post" where
  "post_with blocks =
     \<lparr>uid = String ''a-post'', first_publication_date = String ''2021-03-15T19:25:28+0000'',
      data = Some \<lparr>title = ''A post'', subtitle = ''About it'', author = ''Someone'',
                   banner = \<lparr>url = Null\<rparr>, content = blocks\<rparr>,
      last_publication_date = Null\<rparr>"

text \<open>Concrete inputs.\<close>

definition intro_block :: content_block where
  "intro_block = \<lparr>heading = ''Intro'', body = [\<lparr>text = ''Hello  world''\<rparr>]\<rparr>"


text \<open>One block without a heading whose body is 201 words, one per line.\<close>

definition newline_words :: "content_block list" where
  "newline_words =
     [\<lparr>heading = [], body = [\<lparr>text = concat (replicate 200 [CHR ''w'', CHR 0x0A]) @ ''w''\<rparr>]\<rparr>]"

definition older_doc :: document where
  "older_doc =
     \<lparr>uid = String ''older-post'', first_publication_date = String ''2021-03-10T10:00:00+0000'',
      data = \<lparr>title = ''Older post'', subtitle = ''Before'', author = ''Someone'',
              banner = \<lparr>url = Null\<rparr>, content = Some []\<rparr>,
      last_publication_date = String ''2021-03-10T10:00:00+0000'', doc_id = ''YEkx1''\<rparr>"

definition newest_doc :: document where
  "newest_doc =
     \<lparr>uid = String ''newest-post'', first_publication_date = String ''2021-03-15T19:25:28+0000'',
      data = \<lparr>title = ''Newest post'', subtitle = ''After'', author = ''Someone'',
              banner = \<lparr>url = Null\<rparr>, content = Some [intro_block]\<rparr>,
      last_publication_date = String ''2021-03-16T08:00:00+0000'', doc_id = ''YEkx2''\<rparr>"

text \<open>A content API holding the two posts above: the newest one has no successor.\<close>

definition two_posts :: prismic_client where
  "two_posts =
     \<lparr>getByUID = (\<lambda>type' u opts.
         if u = ''newest-post'' then Inr newest_doc
         else if u = ''older-post'' then Inr older_doc
         else Inl NotFoundError),
      query = (\<lambda>preds opts.
         if after opts = ''YEkx2'' \<and> orderings opts = ''[document.first_publication_date desc]''
         then Inr \<lparr>next_page = Null, results = [older_doc]\<rparr>
         else if after opts = ''YEkx1'' \<and> orderings opts = ''[document.first_publication_date]''
         then Inr \<lparr>next_page = Null, results = [newest_doc]\<rparr>
         else Inr \<lparr>next_page = Null, results = []\<rparr>)\<rparr>"

definition summary_a :: summary where
  "summary_a = \<lparr>uid = String ''a'', first_publication_date = String ''2021-03-03'',
                 data = \<lparr>title = ''A'', subtitle = ''first'', author = ''Someone''\<rparr>\<rparr>"

definition summary_b :: summary where
  "summary_b = \<lparr>uid = String ''b'', first_publication_date = String ''2021-03-02'',
                 data = \<lparr>title = ''B'', subtitle = ''second'', author = ''Someone''\<rparr>\<rparr>"

definition summary_c :: summary where
  "summary_c = \<lparr>uid = String ''c'', first_publication_date = Null,
                 data = \<lparr>title = ''C'', subtitle = ''third'', author = ''Someone''\<rparr>\<rparr>"

text \<open>
  A stand-in for date-fns at concrete inputs: \<^verbatim>\<open>new Date(null)\<close> is the epoch,
  \<^verbatim>\<open>new Date(undefined)\<close> and the date of a string that does not start with a digit are
  invalid, and a valid date is shown as its string.
\<close>

definition plain_format :: "date_pattern \<Rightarrow> js_string \<Rightarrow> error + string" where
  "plain_format pat v =
     (case v of
        Undefined \<Rightarrow> Inl RangeError
      | Null \<Rightarrow> Inr ''1970-01-01T00:00:00+0000''
      | String d \<Rightarrow>
          (case d of
             [] \<Rightarrow> Inl RangeError
           | c # cs \<Rightarrow> if c \<in> set ''0123456789'' then Inr d else Inl RangeError))"

text \<open>A post without \<open>data\<close> whose publication date does not parse.\<close>

definition undated_post :: post where
  "undated_post =
     \<lparr>uid = String ''a-post'', first_publication_date = String ''not-a-date'',
      data = None, last_publication_date = Null\<rparr>"

text \<open>A post without \<open>data\<close> whose publication date parses.\<close>

definition bare_post :: post where
  "bare_post =
     \<lparr>uid = String ''a-post'', first_publication_date = String ''2021-03-15T19:25:28+0000'',
      data = None, last_publication_date = Null\<rparr>"

definition summary_bad :: summary where
  "summary_bad = \<lparr>uid = String ''d'', first_publication_date = String ''not-a-date'',
                   data = \<lparr>title = ''D'', subtitle = ''fourth'', author = ''Someone''\<rparr>\<rparr>"

text \<open>A network that answers the first page link with two posts and the second with one.\<close>

definition two_pages :: "string \<Rightarrow> error + summary post_pagination" where
  "two_pages u =
     (if u = ''https://api/page2'' then Inr \<lparr>next_page = String ''https://api/page3'', results = [summary_a, summary_b]\<rparr>
      else if u = ''https://api/page3'' then Inr \<lparr>next_page = Null, results = [summary_c]\<rparr>
      else if u = ''https://api/bad'' then Inr \<lparr>next_page = Null, results = [summary_bad]\<rparr>
      else Inl FetchError)"


section \<open>Splitting and counting\<close>

text \<open>A split yields one more piece than the string has separators.\<close>

lemma length_split_where: "length (split_where P w s) = Suc (length (filter P s))"
  by (induction s arbitrary: w) simp_all

lemma length_js_split: "length (js_split sep s) = Suc (length (filter (\<lambda>c. c = sep) s))"
  by (simp add: js_split_def length_split_where)

lemma length_whitespace_split: "length (whitespace_split s) = Suc (length (filter is_whitespace s))"
  by (simp add: whitespace_split_def length_split_where)

lemma js_split_Nil: "js_split sep [] = [[]]"
  by (simp add: js_split_def)

lemma pushWords_append: "pushWords asText tot c = tot @ block_words asText c"
  by (simp add: pushWords_def wordsContent_def block_words_def)

lemma foldl_pushWords:
  "foldl (pushWords asText) tot blocks = tot @ concat (map (block_words asText) blocks)"
  by (induction blocks arbitrary: tot) (simp_all add: pushWords_append)

lemma reduce_content_concat:
  "reduce_content asText blocks = concat (map (block_words asText) blocks)"
  by (simp add: reduce_content_def foldl_pushWords)

lemma reduce_content_snoc:
  "reduce_content asText (blocks @ [c]) = reduce_content asText blocks @ block_words asText c"
  by (simp add: reduce_content_concat)

lemma length_block_words:
  "length (block_words asText c) =
     (if heading c \<noteq> [] then length (js_split CHR '' '' (heading c)) else 0)
       + length (js_split CHR '' '' (asText (body c)))"
  by (simp add: block_words_def)

lemma length_reduce_content:
  "length (reduce_content asText blocks) =
     (\<Sum>c\<leftarrow>blocks. (if heading c \<noteq> [] then length (js_split CHR '' '' (heading c)) else 0)
                  + length (js_split CHR '' '' (asText (body c))))"
  by (simp add: reduce_content_concat length_concat comp_def length_block_words)

section \<open>The ceiling\<close>

text \<open>\<open>ceil_200\<close> as integer arithmetic; it is monotone and never negative.\<close>

lemma ceil_200_mono: "m \<le> n \<Longrightarrow> ceil_200 m \<le> ceil_200 n"
  unfolding ceil_200_def by (intro ceiling_mono divide_right_mono) simp_all

lemma ceil_200_nonneg: "0 \<le> ceil_200 n"
  unfolding ceil_200_def by simp

lemma ceil_200_div: "ceil_200 n = (int n + 199) div 200"
proof -
  define z where "z = (int n + 199) div 200"
  define r where "r = (int n + 199) mod 200"
  have split: "int n + 199 = 200 * z + r"
    by (simp add: z_def r_def)
  have "0 \<le> r" and "r < 200"
    by (simp_all add: r_def)
  with split have lo: "200 * z - 200 < int n" and hi: "int n \<le> 200 * z"
    by linarith+
  from lo have "real_of_int (200 * z - 200) < real_of_int (int n)"
    by (simp only: of_int_less_iff)
  then have lo': "of_int z - 1 < real n / 200"
    by simp
  from hi have "real_of_int (int n) \<le> real_of_int (200 * z)"
    by (simp only: of_int_le_iff)
  then have hi': "real n / 200 \<le> of_int z"
    by simp
  from lo' hi' have "\<lceil>real n / 200\<rceil> = z"
    by (intro ceiling_unique) simp_all
  then show ?thesis
    by (simp add: ceil_200_def z_def)
qed

section \<open>Reading time\<close>

lemma totalWords_content:
  "data p = Some d \<Longrightarrow> content d = Some blocks \<Longrightarrow>
   totalWords asText (Some p) = Inr (Some (reduce_content asText blocks))"
  by (simp add: totalWords_def)

lemma readTime_estimate:
  "data p = Some d \<Longrightarrow> content d = Some blocks \<Longrightarrow>
   readTime asText (Some p) = Inr (Num (estimate asText blocks))"
  by (simp add: readTime_def totalWords_content estimate_def)

lemma data_post_with:
  "data (post_with blocks) =
     Some \<lparr>title = ''A post'', subtitle = ''About it'', author = ''Someone'',
           banner = \<lparr>url = Null\<rparr>, content = blocks\<rparr>"
  by (simp add: post_with_def)

lemma filter_concat_replicate:
  "filter P (concat (replicate n xs)) = concat (replicate n (filter P xs))"
  by (induction n) simp_all

lemma length_concat_replicate: "length (concat (replicate n xs)) = n * length xs"
  by (induction n) simp_all

text \<open>
  C1, as amended. For every post whose content is a sequence of content blocks, the
  words are the blocks' tokens in block order, a block giving the tokens of its heading
  (only when the heading is non-empty) and then the tokens of its body rendered to plain
  text, where a string is split at each space character U+0020 and at no other
  whitespace; the reading time is the ceiling of the number of these tokens divided
  by 200.
\<close>

theorem readTime_counts_space_split_tokens:
  assumes "data p = Some d" and "content d = Some blocks"
  shows "totalWords asText (Some p) =
           Inr (Some (concat (map (\<lambda>c. (if heading c \<noteq> [] then js_split CHR '' '' (heading c) else [])
                                         @ js_split CHR '' '' (asText (body c))) blocks))) \<and>
         readTime asText (Some p) =
           Inr (Num \<lceil>real (\<Sum>c\<leftarrow>blocks.
                        (if heading c \<noteq> [] then length (js_split CHR '' '' (heading c)) else 0)
                          + length (js_split CHR '' '' (asText (body c)))) / 200\<rceil>)"
proof -
  have "block_words asText = (\<lambda>c. (if heading c \<noteq> [] then js_split CHR '' '' (heading c) else [])
                                         @ js_split CHR '' '' (asText (body c)))"
    by (rule ext) (simp add: block_words_def)
  then have "totalWords asText (Some p) =
           Inr (Some (concat (map (\<lambda>c. (if heading c \<noteq> [] then js_split CHR '' '' (heading c) else [])
                                         @ js_split CHR '' '' (asText (body c))) blocks)))"
    using totalWords_content [OF assms, of asText] by (simp add: reduce_content_concat)
  moreover have "readTime asText (Some p) =
           Inr (Num \<lceil>real (\<Sum>c\<leftarrow>blocks.
                        (if heading c \<noteq> [] then length (js_split CHR '' '' (heading c)) else 0)
                          + length (js_split CHR '' '' (asText (body c)))) / 200\<rceil>)"
    using readTime_estimate [OF assms, of asText]
    by (simp add: estimate_def ceil_200_def length_reduce_content)
  ultimately show ?thesis by simp
qed

text \<open>
  The theorem at a post with one block, heading \<^verbatim>\<open>Intro\<close> and body \<^verbatim>\<open>Hello  world\<close> (two
  spaces): four tokens, one of them empty, and one minute.
\<close>

theorem readTime_counts_space_split_tokens_witness:
  "data (post_with (Some [intro_block])) =
     Some \<lparr>title = ''A post'', subtitle = ''About it'', author = ''Someone'',
           banner = \<lparr>url = Null\<rparr>, content = Some [intro_block]\<rparr> \<and>
   totalWords concatText (Some (post_with (Some [intro_block]))) =
     Inr (Some [''Intro'', ''Hello'', [], ''world'']) \<and>
   readTime concatText (Some (post_with (Some [intro_block]))) = Inr (Num 1)"
proof -
  have d: "data (post_with (Some [intro_block])) =
     Some \<lparr>title = ''A post'', subtitle = ''About it'', author = ''Someone'',
           banner = \<lparr>url = Null\<rparr>, content = Some [intro_block]\<rparr>"
    by (rule data_post_with)
  have c: "content \<lparr>title = ''A post'', subtitle = ''About it'', author = ''Someone'',
           banner = \<lparr>url = Null\<rparr>, content = Some [intro_block]\<rparr> = Some [intro_block]"
    by simp
  have m: "\<lceil>1 / 50 :: real\<rceil> = 1"
    by (rule ceiling_unique) simp_all
  show ?thesis
    using readTime_counts_space_split_tokens [OF d c, of concatText] d
    by (simp add: intro_block_def concatText_def js_split_def m)
qed

text \<open>
  C1 as stated, with tokens split at whitespace, fails: a body of 201 words separated by
  line feeds has no space, so the page counts one token and shows one minute, while the
  whitespace-split total is 201 and its ceiling is two minutes.
\<close>

theorem readTime_whitespace_counterexample:
  "readTime concatText (Some (post_with (Some newline_words))) = Inr (Num 1) \<and>
   \<lceil>real (whitespace_total concatText newline_words) / 200\<rceil> = 2"
proof -
  have code: "length (reduce_content concatText newline_words) = 1"
    by (simp add: length_reduce_content newline_words_def concatText_def length_js_split
        filter_concat_replicate)
  have spec: "whitespace_total concatText newline_words = 201"
    by (simp add: whitespace_total_def newline_words_def concatText_def length_whitespace_split
        filter_concat_replicate length_concat_replicate is_whitespace_def)
  have "readTime concatText (Some (post_with (Some newline_words))) = Inr (Num (ceil_200 1))"
    using readTime_estimate [OF data_post_with, of "Some newline_words" newline_words concatText]
    by (simp add: estimate_def code)
  then show ?thesis
    by (simp add: ceil_200_div spec)
qed

text \<open>
  C3, as amended. When the post itself is missing, or the post is there and its \<open>data\<close>
  is missing, the reading-time computation does not raise: it yields \<^verbatim>\<open>NaN\<close>, for which
  the clock slot is the placeholder, so every page that renders shows the placeholder
  there. The render itself can then only fail in formatting one of the post's dates,
  and with no post it does not fail.
\<close>

theorem readTime_missing_post_or_data:
  assumes "post props' = None \<or> (\<exists>p. post props' = Some p \<and> data p = None)"
  shows "readTime asText (post props') = Inr NaN \<and>
         clock NaN = ''Tempo de leitura'' \<and>
         (\<forall>v. Post asText format props' = Inr v \<longrightarrow> clock_slot v = ''Tempo de leitura'') \<and>
         (\<forall>e. Post asText format props' = Inl e \<longrightarrow>
            published format (post props') = Inl e \<or>
            lastEdit format (post props') = Some (Inl e)) \<and>
         (post props' = None \<longrightarrow>
            Post asText format props' =
              Inr \<lparr>published_slot = publication_placeholder,
                    clock_slot = ''Tempo de leitura'', lastEdit_slot = None\<rparr>)"
proof -
  from assms have "totalWords asText (post props') = Inr None"
    by (auto simp: totalWords_def)
  then have r: "readTime asText (post props') = Inr NaN"
    by (simp add: readTime_def)
  have c: "clock NaN = ''Tempo de leitura''"
    by (simp add: clock_def)
  have ok: "clock_slot v = ''Tempo de leitura''" if "Post asText format props' = Inr v" for v
    using that r c by (auto simp: Post_def split: sum.splits option.splits)
  have bad: "published format (post props') = Inl e \<or> lastEdit format (post props') = Some (Inl e)"
    if "Post asText format props' = Inl e" for e
    using that r by (auto simp: Post_def split: sum.splits option.splits)
  have none: "Post asText format props' =
      Inr \<lparr>published_slot = publication_placeholder,
            clock_slot = ''Tempo de leitura'', lastEdit_slot = None\<rparr>"
    if "post props' = None"
    using that r c by (simp add: Post_def published_def lastEdit_def)
  from r c ok bad none show ?thesis
    by blast
qed

text \<open>
  The theorem at the props of a fallback render, which carry no post, and at two posts
  without \<open>data\<close>: one whose publication date formats, and one whose date does not, where
  the reading time is \<^verbatim>\<open>NaN\<close> all the same and the render fails in the date.
\<close>

theorem readTime_missing_post_or_data_witness:
  "Post concatText plain_format \<lparr>post = None, preview = False, pagination = None\<rparr>
     = Inr \<lparr>published_slot = publication_placeholder,
             clock_slot = ''Tempo de leitura'', lastEdit_slot = None\<rparr> \<and>
   readTime concatText (Some bare_post) = Inr NaN \<and>
   Post concatText plain_format \<lparr>post = Some bare_post, preview = False, pagination = None\<rparr>
     = Inr \<lparr>published_slot = ''2021-03-15T19:25:28+0000'',
             clock_slot = ''Tempo de leitura'', lastEdit_slot = None\<rparr> \<and>
   readTime concatText (Some undated_post) = Inr NaN \<and>
   Post concatText plain_format \<lparr>post = Some undated_post, preview = False, pagination = None\<rparr>
     = Inl RangeError \<and>
   published plain_format (Some undated_post) = Inl RangeError"
proof -
  have p1: "Post concatText plain_format \<lparr>post = None, preview = False, pagination = None\<rparr>
     = Inr \<lparr>published_slot = publication_placeholder,
             clock_slot = ''Tempo de leitura'', lastEdit_slot = None\<rparr>"
    using readTime_missing_post_or_data
      [of "\<lparr>post = None, preview = False, pagination = None\<rparr>" concatText plain_format]
    by simp
  have p2: "readTime concatText (Some bare_post) = Inr NaN"
    using readTime_missing_post_or_data
      [of "\<lparr>post = Some bare_post, preview = False, pagination = None\<rparr>" concatText plain_format]
    by (simp add: bare_post_def)
  have p3: "readTime concatText (Some undated_post) = Inr NaN"
    using readTime_missing_post_or_data
      [of "\<lparr>post = Some undated_post, preview = False, pagination = None\<rparr>" concatText plain_format]
    by (simp add: undated_post_def)
  have p4: "Post concatText plain_format \<lparr>post = Some bare_post, preview = False, pagination = None\<rparr>
     = Inr \<lparr>published_slot = ''2021-03-15T19:25:28+0000'',
             clock_slot = ''Tempo de leitura'', lastEdit_slot = None\<rparr>"
    using p2 by (simp add: Post_def published_def lastEdit_def clock_def bare_post_def plain_format_def)
  have p5: "published plain_format (Some undated_post) = Inl RangeError"
    by (simp add: published_def undated_post_def plain_format_def)
  have p6: "Post concatText plain_format \<lparr>post = Some undated_post, preview = False, pagination = None\<rparr>
     = Inl RangeError"
    using p3 p5 by (simp add: Post_def)
  from p1 p2 p3 p4 p5 p6 show ?thesis by simp
qed

text \<open>
  C3 as stated fails: a post whose \<open>data\<close> is there and whose \<open>content\<close> is missing makes
  the computation, and with it the render, raise a \<^verbatim>\<open>TypeError\<close>.
\<close>

theorem readTime_missing_content_counterexample:
  "readTime concatText (Some (post_with None)) = Inl TypeError \<and>
   Post concatText plain_format \<lparr>post = Some (post_with None), preview = False, pagination = None\<rparr>
     = Inl TypeError"
  by (simp add: Post_def readTime_def totalWords_def post_with_def)

text \<open>
  C6. A content block whose body renders to the empty string still adds exactly one
  token, the empty string, after the tokens of its heading: the word count of the
  sequence grows by the heading's tokens plus one.
\<close>

theorem empty_body_adds_one_empty_token:
  assumes "asText (body c) = []"
  shows "wordsContent asText c = [[]] \<and>
         pushWords asText tot c =
           (if heading c \<noteq> [] then tot @ js_split CHR '' '' (heading c) else tot) @ [[]] \<and>
         length (reduce_content asText (blocks @ [c])) =
           length (reduce_content asText blocks)
             + (if heading c \<noteq> [] then length (js_split CHR '' '' (heading c)) else 0) + 1"
  using assms
  by (simp add: wordsContent_def pushWords_def js_split_Nil reduce_content_snoc block_words_def)

text \<open>The theorem at a block with an empty heading and an empty body.\<close>

theorem empty_body_adds_one_empty_token_witness:
  "concatText (body \<lparr>heading = [], body = []\<rparr>) = [] \<and>
   pushWords concatText [''x''] \<lparr>heading = [], body = []\<rparr> = [''x'', []] \<and>
   length (reduce_content concatText ([] @ [\<lparr>heading = [], body = []\<rparr>])) = 1"
proof -
  have h: "concatText (body \<lparr>heading = [], body = []\<rparr>) = []"
    by (simp add: concatText_def)
  show ?thesis
    using h empty_body_adds_one_empty_token
      [of concatText "\<lparr>heading = [], body = []\<rparr>" "[''x'']" "[]"]
    by (simp add: reduce_content_def)
qed

text \<open>
  C7. For every sequence of content blocks and every further block, the estimate is not
  negative, and appending the block decreases neither the word count nor the estimate.
\<close>

theorem estimate_nonneg_mono:
  "0 \<le> estimate asText blocks \<and>
   length (reduce_content asText blocks) \<le> length (reduce_content asText (blocks @ [c])) \<and>
   estimate asText blocks \<le> estimate asText (blocks @ [c])"
  by (simp add: estimate_def ceil_200_nonneg ceil_200_mono reduce_content_snoc)




section \<open>Loading more posts\<close>

text \<open>
  A summary copied field by field is itself. The dates of a list format when those of a
  longer list do, and setting the cursor does not change them.
\<close>

lemma summary_of_summary: "summary_of (p :: summary) = p"
  by (cases p, cases "data p") (simp add: summary_of_def)



lemma Home_render_setPosts:
  "Home_render format (setPosts ps st) =
     (case time_slots format ps of Inl e \<Rightarrow> Inl e | Inr ts \<Rightarrow> Inr (ts, Home (setPosts ps st)))"
  by (simp add: Home_render_def Home_def setPosts_def split: sum.split)


text \<open>
  The three outcomes of \<open>handleNextPosts\<close>: the fetch rejects; the fetch resolves and a
  date of the longer list does not format; the fetch resolves and all dates format.
\<close>

lemma handleNextPosts_failure:
  "fetch (template (nextPage_state st)) = Inl e \<Longrightarrow>
   handleNextPosts format fetch st = (Inl e, st)"
  by (simp add: handleNextPosts_def)

lemma handleNextPosts_render_failure:
  "fetch (template (nextPage_state st)) = Inr postsResponse \<Longrightarrow>
   time_slots format (posts_state st @ map summary_of (results postsResponse)) = Inl e \<Longrightarrow>
   handleNextPosts format fetch st =
     (Inl e, \<lparr>posts_state = posts_state st @ map summary_of (results postsResponse),
              nextPage_state = nextPage_state st\<rparr>)"
  by (simp add: handleNextPosts_def Let_def Home_render_setPosts) (simp add: setPosts_def)



text \<open>
  A fetched post whose date does not format: the fetch resolves, the longer list is
  set, its render raises, and the call rejects before the cursor is set.
\<close>

lemma unparseable_date_rejects:
  "handleNextPosts plain_format two_pages
     \<lparr>posts_state = [summary_a], nextPage_state = String ''https://api/bad''\<rparr> =
   (Inl RangeError,
    \<lparr>posts_state = [summary_a, summary_bad], nextPage_state = String ''https://api/bad''\<rparr>)"
proof -
  have "two_pages (template (nextPage_state
          \<lparr>posts_state = [summary_a], nextPage_state = String ''https://api/bad''\<rparr>))
        = Inr \<lparr>next_page = Null, results = [summary_bad]\<rparr>"
    by (simp add: two_pages_def)
  moreover have "time_slots plain_format
      (posts_state \<lparr>posts_state = [summary_a], nextPage_state = String ''https://api/bad''\<rparr>
         @ map summary_of (results \<lparr>next_page = Null, results = [summary_bad]\<rparr>)) = Inl RangeError"
    by (simp add: time_slots_def plain_format_def summary_of_summary summary_a_def summary_bad_def)
  ultimately show ?thesis
    using handleNextPosts_render_failure
      [of two_pages "\<lparr>posts_state = [summary_a], nextPage_state = String ''https://api/bad''\<rparr>"
          "\<lparr>next_page = Null, results = [summary_bad]\<rparr>" plain_format RangeError]
    by (simp add: summary_of_summary)
qed

text \<open>
  C2. If the fetch of a load-more call fails with a \<^verbatim>\<open>FetchError\<close>, the call fails with that
  error and leaves the component state, and so the stored sequence of summaries, exactly
  as it was before the call.
\<close>

theorem failed_fetch_keeps_posts:
  assumes "fetch (template (nextPage_state st)) = Inl FetchError"
  shows "handleNextPosts format fetch st = (Inl FetchError, st) \<and>
         posts_state (snd (handleNextPosts format fetch st)) = posts_state st"
  using assms handleNextPosts_failure [of fetch st FetchError format] by simp

text \<open>The theorem at a state whose next-page link the network does not answer.\<close>

theorem failed_fetch_keeps_posts_witness:
  "two_pages (template (nextPage_state \<lparr>posts_state = [summary_a], nextPage_state = String ''https://api/gone''\<rparr>))
     = Inl FetchError \<and>
   handleNextPosts plain_format two_pages \<lparr>posts_state = [summary_a], nextPage_state = String ''https://api/gone''\<rparr>
     = (Inl FetchError, \<lparr>posts_state = [summary_a], nextPage_state = String ''https://api/gone''\<rparr>)"
proof -
  have h: "two_pages (template (nextPage_state \<lparr>posts_state = [summary_a], nextPage_state = String ''https://api/gone''\<rparr>))
     = Inl FetchError"
    by (simp add: two_pages_def)
  show ?thesis
    using h failed_fetch_keeps_posts
      [of two_pages "\<lparr>posts_state = [summary_a], nextPage_state = String ''https://api/gone''\<rparr>" plain_format]
    by simp
qed



text \<open>Without a truthy cursor there is no button, hence no call, hence no change.\<close>

lemma no_button_no_load_more: "\<not> truthy (nextPage_state st) \<Longrightarrow> \<not> load_more st st'"
  by (auto elim: load_more.cases simp: Home_def)

lemma no_button_stays:
  "load_more\<^sup>*\<^sup>* st st' \<Longrightarrow> \<not> truthy (nextPage_state st) \<Longrightarrow> st' = st"
  by (induction rule: rtranclp_induct) (auto dest: no_button_no_load_more)

text \<open>
  C8. In every state whose next-page cursor is \<^verbatim>\<open>null\<close> or absent, the rendered page has
  no load-more button and no load-more call can be issued; the state, and with it the
  cursor, then stays as it is whatever happens next.
\<close>

theorem no_load_more_without_cursor:
  assumes "nextPage_state st = Null \<or> nextPage_state st = Undefined"
  shows "\<not> loadMore_button (Home st) \<and> (\<forall>st'. \<not> load_more st st') \<and>
         (\<forall>st'. load_more\<^sup>*\<^sup>* st st' \<longrightarrow> st' = st)"
proof -
  from assms have f: "\<not> truthy (nextPage_state st)" by auto
  then show ?thesis
    using no_button_no_load_more [OF f] no_button_stays [OF _ f] by (auto simp: Home_def)
qed

text \<open>The theorem at a state holding one summary and a \<^verbatim>\<open>null\<close> cursor.\<close>

theorem no_load_more_without_cursor_witness:
  "\<not> loadMore_button (Home \<lparr>posts_state = [summary_a], nextPage_state = Null\<rparr>) \<and>
   (\<forall>st'. \<not> load_more \<lparr>posts_state = [summary_a], nextPage_state = Null\<rparr> st') \<and>
   \<not> load_more\<^sup>*\<^sup>* \<lparr>posts_state = [summary_a], nextPage_state = Null\<rparr>
        \<lparr>posts_state = [summary_a, summary_b], nextPage_state = Null\<rparr>"
  using no_load_more_without_cursor [of "\<lparr>posts_state = [summary_a], nextPage_state = Null\<rparr>"]
  by auto

section \<open>Static props of the post page\<close>

text \<open>The props when the three calls to the content API succeed.\<close>

lemma getStaticProps_success:
  assumes "getByUID prismic ''posts'' slug \<lparr>ref = preview_ref previewData\<rparr> = Inr response"
    and "query prismic [At ''document.type'' ''posts'']
           \<lparr>pageSize = 1, after = doc_id response,
            orderings = ''[document.first_publication_date]''\<rparr> = Inr next_response"
    and "query prismic [At ''document.type'' ''posts'']
           \<lparr>pageSize = 1, after = doc_id response,
            orderings = ''[document.first_publication_date desc]''\<rparr> = Inr prev_response"
  shows "getStaticProps prismic slug preview' previewData =
     Inr \<lparr>props =
            \<lparr>post = Some \<lparr>uid = uid response,
                           first_publication_date = first_publication_date response,
                           data = Some \<lparr>title = title (data response),
                                        subtitle = subtitle (data response),
                                        author = author (data response),
                                        banner = \<lparr>url = url (banner (data response))\<rparr>,
                                        content = content (data response)\<rparr>,
                           last_publication_date =
                             (if first_publication_date response \<noteq> last_publication_date response
                              then last_publication_date response else Null)\<rparr>,
             preview = (case preview' of None \<Rightarrow> False | Some b \<Rightarrow> b),
             pagination = Some \<lparr>nextPage = page_link_of (first_result (results next_response)),
                                 prevPage = page_link_of (first_result (results prev_response))\<rparr>\<rparr>,
           redirect = 1800\<rparr>"
  using assms by (simp add: getStaticProps_def Let_def)

lemma two_posts_newest:
  "getByUID two_posts ''posts'' ''newest-post'' \<lparr>ref = preview_ref None\<rparr> = Inr newest_doc"
  "query two_posts [At ''document.type'' ''posts'']
     \<lparr>pageSize = 1, after = doc_id newest_doc,
      orderings = ''[document.first_publication_date]''\<rparr> = Inr \<lparr>next_page = Null, results = []\<rparr>"
  "query two_posts [At ''document.type'' ''posts'']
     \<lparr>pageSize = 1, after = doc_id newest_doc,
      orderings = ''[document.first_publication_date desc]''\<rparr>
   = Inr \<lparr>next_page = Null, results = [older_doc]\<rparr>"
  by (simp_all add: two_posts_def newest_doc_def)

lemma two_posts_older:
  "getByUID two_posts ''posts'' ''older-post'' \<lparr>ref = preview_ref None\<rparr> = Inr older_doc"
  "query two_posts [At ''document.type'' ''posts'']
     \<lparr>pageSize = 1, after = doc_id older_doc,
      orderings = ''[document.first_publication_date]''\<rparr>
   = Inr \<lparr>next_page = Null, results = [newest_doc]\<rparr>"
  "query two_posts [At ''document.type'' ''posts'']
     \<lparr>pageSize = 1, after = doc_id older_doc,
      orderings = ''[document.first_publication_date desc]''\<rparr>
   = Inr \<lparr>next_page = Null, results = []\<rparr>"
  by (simp_all add: two_posts_def older_doc_def)

text \<open>
  C4. The pagination comes from two queries for one result each, both positioned after
  the current post's id, one in ascending order of first publication date (next) and
  one in descending order (previous). Each side is \<^verbatim>\<open>null\<close> exactly when its query returns
  no document; a present side has the title of the first returned document and the link
  \<^verbatim>\<open>/post/\<close> followed by its uid. Neither side depends on the other query.
\<close>

theorem pagination_from_two_queries:
  assumes "getByUID prismic ''posts'' slug \<lparr>ref = preview_ref previewData\<rparr> = Inr response"
    and "query prismic [At ''document.type'' ''posts'']
           \<lparr>pageSize = 1, after = doc_id response,
            orderings = ''[document.first_publication_date]''\<rparr> = Inr next_response"
    and "query prismic [At ''document.type'' ''posts'']
           \<lparr>pageSize = 1, after = doc_id response,
            orderings = ''[document.first_publication_date desc]''\<rparr> = Inr prev_response"
  shows "\<exists>r pg. getStaticProps prismic slug preview' previewData = Inr r \<and>
           pagination (props r) = Some pg \<and>
           (nextPage pg = None \<longleftrightarrow> results next_response = []) \<and>
           (prevPage pg = None \<longleftrightarrow> results prev_response = []) \<and>
           (\<forall>doc rest. results next_response = doc # rest \<longrightarrow>
              nextPage pg = Some \<lparr>title = title (data doc), href = ''/post/'' @ template (uid doc)\<rparr>) \<and>
           (\<forall>doc rest. results prev_response = doc # rest \<longrightarrow>
              prevPage pg = Some \<lparr>title = title (data doc), href = ''/post/'' @ template (uid doc)\<rparr>)"
proof -
  let ?pg = "\<lparr>nextPage = page_link_of (first_result (results next_response)),
              prevPage = page_link_of (first_result (results prev_response))\<rparr>"
  from getStaticProps_success [OF assms, of preview']
  obtain r where r: "getStaticProps prismic slug preview' previewData = Inr r"
    and pg: "pagination (props r) = Some ?pg"
    by simp
  have nx: "(nextPage ?pg = None \<longleftrightarrow> results next_response = []) \<and>
      (\<forall>doc rest. results next_response = doc # rest \<longrightarrow>
         nextPage ?pg = Some \<lparr>title = title (data doc), href = ''/post/'' @ template (uid doc)\<rparr>)"
    by (cases "results next_response") (simp_all add: page_link_of_def)
  have pv: "(prevPage ?pg = None \<longleftrightarrow> results prev_response = []) \<and>
      (\<forall>doc rest. results prev_response = doc # rest \<longrightarrow>
         prevPage ?pg = Some \<lparr>title = title (data doc), href = ''/post/'' @ template (uid doc)\<rparr>)"
    by (cases "results prev_response") (simp_all add: page_link_of_def)
  show ?thesis
    by (rule exI [of _ r], rule exI [of _ ?pg]) (use r pg nx pv in simp)
qed

text \<open>
  The theorem at the newest of two posts: no successor, so \<open>nextPage\<close> is \<^verbatim>\<open>null\<close>, and
  \<open>prevPage\<close> is the link to the older post.
\<close>

theorem pagination_from_two_queries_witness:
  "\<exists>r. getStaticProps two_posts ''newest-post'' None None = Inr r \<and>
        pagination (props r) =
          Some \<lparr>nextPage = None,
                prevPage = Some \<lparr>title = ''Older post'', href = ''/post/older-post''\<rparr>\<rparr>"
proof -
  note g = two_posts_newest(1) and n = two_posts_newest(2) and p = two_posts_newest(3)
  from pagination_from_two_queries [OF g n p, of None]
  obtain r pg where r: "getStaticProps two_posts ''newest-post'' None None = Inr r"
    and pg: "pagination (props r) = Some pg"
    and nx: "nextPage pg = None"
    and pv: "prevPage pg = Some \<lparr>title = title (data older_doc), href = ''/post/'' @ template (uid older_doc)\<rparr>"
    by auto
  from nx pv have "pg = \<lparr>nextPage = None,
                prevPage = Some \<lparr>title = ''Older post'', href = ''/post/older-post''\<rparr>\<rparr>"
    by (cases pg) (simp add: older_doc_def)
  with r pg show ?thesis by simp
qed

text \<open>
  C10. The post handed to the page has \<open>last_publication_date\<close> \<^verbatim>\<open>null\<close> when the fetched
  document's last and first publication dates are equal, and the document's
  \<open>last_publication_date\<close> otherwise; so the edit marker is rendered only for a document
  whose last publication date differs from its first.
\<close>

theorem last_publication_date_only_when_edited:
  assumes "getByUID prismic ''posts'' slug \<lparr>ref = preview_ref previewData\<rparr> = Inr response"
    and "getStaticProps prismic slug preview' previewData = Inr r"
  shows "\<exists>p. post (props r) = Some p \<and>
           last_publication_date p =
             (if last_publication_date response = first_publication_date response then Null
              else last_publication_date response) \<and>
           (lastEdit format (post (props r)) \<noteq> None \<longrightarrow>
              last_publication_date response \<noteq> first_publication_date response \<and>
              truthy (last_publication_date response))"
proof -
  from assms obtain p where p: "post (props r) = Some p"
    and l: "last_publication_date p =
             (if last_publication_date response = first_publication_date response then Null
              else last_publication_date response)"
    by (auto simp: getStaticProps_def Let_def split: sum.splits)
  have "last_publication_date response \<noteq> first_publication_date response \<and>
        truthy (last_publication_date response)"
    if "lastEdit format (post (props r)) \<noteq> None"
    using that p l
    by (cases "last_publication_date response = first_publication_date response";
        cases "last_publication_date response") (auto simp: lastEdit_def split: if_splits)
  with p l show ?thesis by blast
qed

text \<open>
  The theorem at the two posts: the edited one keeps its date, the unedited one gets
  \<^verbatim>\<open>null\<close> and no marker.
\<close>

theorem last_publication_date_only_when_edited_witness:
  "(\<exists>r p. getStaticProps two_posts ''newest-post'' None None = Inr r \<and>
      post (props r) = Some p \<and>
      last_publication_date p = String ''2021-03-16T08:00:00+0000'') \<and>
   (\<exists>r p. getStaticProps two_posts ''older-post'' None None = Inr r \<and>
      post (props r) = Some p \<and> last_publication_date p = Null \<and>
      lastEdit plain_format (post (props r)) = None)"
proof -
  note g1 = two_posts_newest(1) and g2 = two_posts_older(1)
  obtain r1 where r1: "getStaticProps two_posts ''newest-post'' None None = Inr r1"
    using getStaticProps_success [OF two_posts_newest, of None] by simp
  obtain r2 where r2: "getStaticProps two_posts ''older-post'' None None = Inr r2"
    using getStaticProps_success [OF two_posts_older, of None] by simp
  from last_publication_date_only_when_edited [OF g1 r1, of plain_format]
  have a: "\<exists>p. post (props r1) = Some p \<and>
      last_publication_date p = String ''2021-03-16T08:00:00+0000''"
    by (auto simp: newest_doc_def)
  from last_publication_date_only_when_edited [OF g2 r2, of plain_format]
  have b: "\<exists>p. post (props r2) = Some p \<and> last_publication_date p = Null \<and>
      lastEdit plain_format (post (props r2)) = None"
    by (auto simp: older_doc_def lastEdit_def)
  from a b r1 r2 show ?thesis by blast
qed

end
